theory Spec2Isabelle
  imports Complex_Main "HOL-Library.AList"
begin

section \<open>Python strings\<close>

text \<open>
  A Python \<open>str\<close> is a sequence of Unicode code points. \<open>char\<close> only has the values
  0..255, and the program handles text beyond that range, so a string is the list of its
  code points. \<open>u\<close> embeds an ASCII literal of the source.
\<close>

type_synonym ustring = "nat list"

definition u :: "string \<Rightarrow> ustring" where
  "u s = map of_char s"

text \<open>\<open>s.startswith(p)\<close>\<close>

definition startswith :: "ustring \<Rightarrow> ustring \<Rightarrow> bool" where
  "startswith s p = (take (length p) s = p)"

text \<open>
  \<open>s.replace(old, new)\<close>: the occurrences of \<open>old\<close> are found from left to right
  without overlap. Every call of the program has a non-empty \<open>old\<close>.
\<close>

function str_replace :: "ustring \<Rightarrow> ustring \<Rightarrow> ustring \<Rightarrow> ustring" where
  "str_replace old new [] = []"
| "str_replace old new (c # cs) =
     (if old \<noteq> [] \<and> startswith (c # cs) old
      then new @ str_replace old new (drop (length old) (c # cs))
      else c # str_replace old new cs)"
  by pat_completeness auto
termination
  by (relation "measure (\<lambda>(old, new, s). length s)") auto

text \<open>\<open>sep.join(xs)\<close>\<close>

fun join :: "ustring \<Rightarrow> ustring list \<Rightarrow> ustring" where
  "join sep [] = []"
| "join sep [x] = x"
| "join sep (x # y # zs) = x @ sep @ join sep (y # zs)"

text \<open>
  The characters for which \<open>str.isspace()\<close> holds; the class \<open>\s\<close> of \<open>re\<close> on
  \<open>str\<close> patterns and the characters removed by \<open>str.strip()\<close> are the same set.
\<close>

definition is_space :: "nat \<Rightarrow> bool" where
  "is_space c = ((9 \<le> c \<and> c \<le> 13) \<or> (28 \<le> c \<and> c \<le> 32) \<or> c = 133 \<or> c = 160
     \<or> c = 5760 \<or> (8192 \<le> c \<and> c \<le> 8202) \<or> c = 8232 \<or> c = 8233 \<or> c = 8239
     \<or> c = 8287 \<or> c = 12288)"


section \<open>The regular expressions of the program\<close>

text \<open>
  The patterns of \<open>parser.py\<close> are sequences of single characters and character classes,
  each taken once or under \<open>*\<close>, \<open>+\<close> or \<open>*?\<close>, with capture groups that are never
  nested. \<open>One p\<close> takes one character of class \<open>p\<close>, \<open>Greedy p\<close> is \<open>p*\<close>,
  \<open>Lazy p\<close> is \<open>p*?\<close>, and \<open>p+\<close> is \<open>One p\<close> followed by \<open>Greedy p\<close>.
  \<open>Open\<close> and \<open>Close\<close> are the parentheses of a group.
\<close>

datatype item = One "nat \<Rightarrow> bool" | Greedy "nat \<Rightarrow> bool" | Lazy "nat \<Rightarrow> bool" | Open | Close

text \<open>
  \<open>rmatch ps s\<close> matches the pattern at the start of \<open>s\<close> as the backtracking matcher
  of \<open>re\<close> does: a greedy star first takes a character and gives it back only when the
  rest fails, a lazy star first tries the rest. The result is the text taken by each item.
\<close>

fun rmatch :: "item list \<Rightarrow> ustring \<Rightarrow> ustring list option" where
  "rmatch [] s = Some []"
| "rmatch (Open # ps) s = map_option ((#) []) (rmatch ps s)"
| "rmatch (Close # ps) s = map_option ((#) []) (rmatch ps s)"
| "rmatch (One p # ps) [] = None"
| "rmatch (One p # ps) (c # cs) =
     (if p c then map_option ((#) [c]) (rmatch ps cs) else None)"
| "rmatch (Greedy p # ps) [] = map_option ((#) []) (rmatch ps [])"
| "rmatch (Greedy p # ps) (c # cs) =
     (case (if p c then rmatch (Greedy p # ps) cs else None) of
        Some (k # ks) \<Rightarrow> Some ((c # k) # ks)
      | _ \<Rightarrow> map_option ((#) []) (rmatch ps (c # cs)))"
| "rmatch (Lazy p # ps) [] = map_option ((#) []) (rmatch ps [])"
| "rmatch (Lazy p # ps) (c # cs) =
     (case rmatch ps (c # cs) of
        Some ks \<Rightarrow> Some ([] # ks)
      | None \<Rightarrow>
          (case (if p c then rmatch (Lazy p # ps) cs else None) of
             Some (k # ks) \<Rightarrow> Some ((c # k) # ks)
           | _ \<Rightarrow> None))"

text \<open>The captured groups, in order, from the text taken by each item.\<close>

fun groups :: "item list \<Rightarrow> ustring list \<Rightarrow> ustring option \<Rightarrow> ustring list" where
  "groups (Open # ps) (k # ks) cur = groups ps ks (Some [])"
| "groups (Close # ps) (k # ks) (Some g) = g # groups ps ks None"
| "groups (p # ps) (k # ks) (Some g) = groups ps ks (Some (g @ k))"
| "groups (p # ps) (k # ks) None = groups ps ks None"
| "groups ps ks cur = []"

text \<open>
  \<open>re.search(pattern, s)\<close>: the match at the leftmost position that has one, as its
  groups and the text after the match; \<open>None\<close> when no position matches.
\<close>

fun re_search :: "item list \<Rightarrow> ustring \<Rightarrow> (ustring list \<times> ustring) option" where
  "re_search ps [] =
     (case rmatch ps [] of None \<Rightarrow> None | Some ks \<Rightarrow> Some (groups ps ks None, []))"
| "re_search ps (c # cs) =
     (case rmatch ps (c # cs) of
        None \<Rightarrow> re_search ps cs
      | Some ks \<Rightarrow> Some (groups ps ks None, drop (length (concat ks)) (c # cs)))"

text \<open>\<open>m.group(1)\<close> and \<open>m.group(2)\<close> of a match, from its groups.\<close>

fun group1 :: "ustring list \<Rightarrow> ustring" where
  "group1 (g # gs) = g"
| "group1 [] = []"



text \<open>A literal piece of a pattern.\<close>

definition lit :: "string \<Rightarrow> item list" where
  "lit s = map (\<lambda>c. One (\<lambda>x. x = of_char c)) s"

definition dot_all :: "nat \<Rightarrow> bool" where
  "dot_all c = True"




text \<open>\<open>r'saved from url=\([^)]+\)(https://[^\s]+)'\<close>\<close>

definition saved_from_re :: "item list" where
  "saved_from_re = lit ''saved from url=('' @ [One (\<lambda>c. c \<noteq> 41), Greedy (\<lambda>c. c \<noteq> 41)]
     @ lit '')'' @ [Open] @ lit ''https://''
     @ [One (\<lambda>c. \<not> is_space c), Greedy (\<lambda>c. \<not> is_space c)] @ [Close]"





text \<open>\<open>r'window\.SwymProductInfo\.product\s*=\s*({.*?});'\<close> with \<open>re.DOTALL\<close>\<close>

definition swym_re :: "item list" where
  "swym_re = lit ''window.SwymProductInfo.product'' @ [Greedy is_space] @ lit ''=''
     @ [Greedy is_space] @ [Open] @ lit ''{'' @ [Lazy dot_all] @ lit ''}'' @ [Close] @ lit '';''"


section \<open>Data\<close>

text \<open>
  The value of a column: a string, or Python's \<open>None\<close>, which \<open>remove_quotes\<close> tests for.
  A record of the output is a \<open>dict\<close> from column names to values, kept as the list of
  its items in insertion order.
\<close>

datatype pyval = PNone | PStr ustring

type_synonym pdict = "(string \<times> pyval) list"


text \<open>A variant is the dict \<open>{'public_title': ..., 'sku': ...}\<close>; \<open>sget\<close> is \<open>d.get(key, '')\<close>.\<close>

type_synonym sdict = "(string \<times> ustring) list"

definition sget :: "sdict \<Rightarrow> string \<Rightarrow> ustring" where
  "sget d key = (case map_of d key of None \<Rightarrow> [] | Some v \<Rightarrow> v)"

text \<open>
  \<open>kiwi_data\<close> is a dict with at most the keys product, title, vendor, type, images and
  variants; a field is \<open>None\<close> when its key is absent.
\<close>

record kiwi_data =
  kd_product :: "ustring option"
  kd_title :: "ustring option"
  kd_vendor :: "ustring option"
  kd_type :: "ustring option"
  kd_images :: "ustring list option"
  kd_variants :: "sdict list option"

definition empty_kiwi :: kiwi_data where
  "empty_kiwi = \<lparr>kd_product = None, kd_title = None, kd_vendor = None, kd_type = None,
     kd_images = None, kd_variants = None\<rparr>"

text \<open>
  The parsed page is used through three calls of \<open>soup.find\<close> only; each gives the
  attributes of the first matching tag, or \<open>None\<close>.
\<close>

record soup =
  find_link_canonical :: "sdict option"
  find_meta_description :: "sdict option"
  find_meta_og_description :: "sdict option"

text \<open>What \<open>json.loads\<close> returns.\<close>

datatype json = JNull | JBool bool | JNum real | JStr ustring | JArr "json list"
  | JObj "(ustring \<times> json) list"

fun truthy_json :: "json \<Rightarrow> bool" where
  "truthy_json JNull = False"
| "truthy_json (JBool b) = b"
| "truthy_json (JNum x) = (x \<noteq> 0)"
| "truthy_json (JStr s) = (s \<noteq> [])"
| "truthy_json (JArr xs) = (xs \<noteq> [])"
| "truthy_json (JObj kvs) = (kvs \<noteq> [])"

text \<open>
  The libraries the program calls are parameters: the HTML parser of \<open>bs4\<close>,
  \<open>json.loads\<close> (\<open>None\<close> when it raises),
  \<open>BeautifulSoup(x, 'html.parser').get_text(separator=' ', strip=True)\<close> (\<open>None\<close> when
  it raises), and the table of the Unicode decimal digits.
\<close>

record env =
  BeautifulSoup :: "ustring \<Rightarrow> soup"
  json_loads :: "ustring \<Rightarrow> json option"
  html_text :: "json \<Rightarrow> ustring option"
  unicode_Nd :: "nat \<Rightarrow> bool"

section \<open>The record builder\<close>

definition site_origin :: ustring where
  "site_origin = u ''https://www.papadontpreach.com''"

text \<open>Lines 130 to 140 of \<open>process_kiwi_data\<close>: the URL of the page.\<close>

definition page_url :: "ustring \<Rightarrow> soup \<Rightarrow> ustring option \<Rightarrow> ustring" where
  "page_url html_content soup product_url =
     (if product_url = None \<or> product_url = Some [] then
        (case re_search saved_from_re html_content of
           Some url_match \<Rightarrow> group1 (fst url_match)
         | None \<Rightarrow>
             (case find_link_canonical soup of
                Some canonical \<Rightarrow> sget canonical ''href''
              | None \<Rightarrow> []))
      else (case product_url of Some p \<Rightarrow> p | None \<Rightarrow> []))"

text \<open>Lines 160 to 171: \<open>Image2\<close>.\<close>

definition image2_of :: "ustring list \<Rightarrow> ustring" where
  "image2_of images =
     (case images of
        [] \<Rightarrow> []
      | first_image # _ \<Rightarrow>
          if startswith first_image (u ''//'') then u ''https:'' @ first_image
          else if startswith first_image (u ''/'') then site_origin @ first_image
          else first_image)"

text \<open>Lines 173 to 198: \<open>Ext Images\<close>.\<close>

definition ext_images_of :: "ustring list \<Rightarrow> ustring" where
  "ext_images_of images =
     (if length images \<ge> 3 then
        (let img2 = images ! 1;
             img3 = images ! 2;
             img2 = (if startswith img2 (u ''//'') then u ''https:'' @ img2
                     else if startswith img2 (u ''/'') then site_origin @ img2
                     else img2);
             img3 = (if startswith img3 (u ''//'') then u ''https:'' @ img3
                     else if startswith img3 (u ''/'') then site_origin @ img3
                     else img3)
         in img2 @ u '','' @ img3)
      else if length images = 2 then
        (let img2 = images ! 1;
             img2 = (if startswith img2 (u ''//'') then u ''https:'' @ img2
                     else if startswith img2 (u ''/'') then site_origin @ img2
                     else img2)
         in img2)
      else [])"

text \<open>
  Lines 201 to 215: the description of the SwymProductInfo blob. Whatever is raised
  inside the \<open>try\<close> is swallowed and leaves the description empty: \<open>json.loads\<close>
  failing, a value without \<open>get\<close>, the HTML parser failing.
\<close>

definition swym_description :: "env \<Rightarrow> ustring \<Rightarrow> ustring" where
  "swym_description env html_content =
     (case re_search swym_re html_content of
        None \<Rightarrow> []
      | Some swym_match \<Rightarrow>
          (case json_loads env (str_replace [92, 47] [47] (group1 (fst swym_match))) of
             Some (JObj swym_data) \<Rightarrow>
               (let description_html =
                      (case map_of swym_data (u ''description'') of
                         None \<Rightarrow> JStr [] | Some v \<Rightarrow> v)
                in if truthy_json description_html then
                     (case html_text env description_html of
                        Some text \<Rightarrow> text | None \<Rightarrow> [])
                   else [])
           | _ \<Rightarrow> []))"

text \<open>Lines 200 to 227: \<open>Description\<close>.\<close>

definition description_of :: "env \<Rightarrow> ustring \<Rightarrow> soup \<Rightarrow> ustring" where
  "description_of env html_content soup =
     (let description = swym_description env html_content;
          description =
            (if description = [] then
               (case find_meta_description soup of
                  Some meta_desc \<Rightarrow> sget meta_desc ''content''
                | None \<Rightarrow> description)
             else description);
          description =
            (if description = [] then
               (case find_meta_og_description soup of
                  Some og_desc \<Rightarrow> sget og_desc ''content''
                | None \<Rightarrow> description)
             else description)
      in description)"

text \<open>Lines 230 to 235: the loop over the variants, \<open>sizes\<close> being the list built so far.\<close>

fun sizes_loop :: "sdict list \<Rightarrow> ustring list \<Rightarrow> ustring list" where
  "sizes_loop [] sizes = sizes"
| "sizes_loop (variant # variants) sizes =
     (let size = sget variant ''public_title''
      in if size \<noteq> [] \<and> size \<notin> set sizes then sizes_loop variants (sizes @ [size])
         else sizes_loop variants sizes)"

text \<open>Lines 239 to 242: \<open>Article\<close>.\<close>

definition article_of :: "sdict list \<Rightarrow> ustring" where
  "article_of variants = (case variants of [] \<Rightarrow> [] | v # _ \<Rightarrow> sget v ''sku'')"

text \<open>
  \<open>process_kiwi_data(kiwi_data, html_content, soup, product_url)\<close>. \<open>id2\<close> is the
  string of the UUID that this call draws from \<open>uuid.uuid4()\<close>.
\<close>

definition process_kiwi_data ::
  "env \<Rightarrow> ustring \<Rightarrow> kiwi_data \<Rightarrow> ustring \<Rightarrow> soup \<Rightarrow> ustring option \<Rightarrow> pdict" where
  "process_kiwi_data env id2 kiwi_data html_content soup product_url =
     (let product_url = page_url html_content soup product_url;
          title = (case kd_title kiwi_data of None \<Rightarrow> [] | Some v \<Rightarrow> v);
          brand = (case kd_vendor kiwi_data of None \<Rightarrow> [] | Some v \<Rightarrow> v);
          category = (case kd_type kiwi_data of None \<Rightarrow> [] | Some v \<Rightarrow> v);
          product_id = (case kd_product kiwi_data of None \<Rightarrow> [] | Some v \<Rightarrow> v);
          images = (case kd_images kiwi_data of None \<Rightarrow> [] | Some v \<Rightarrow> v);
          image2 = image2_of images;
          ext_images = ext_images_of images;
          description = description_of env html_content soup;
          variants = (case kd_variants kiwi_data of None \<Rightarrow> [] | Some v \<Rightarrow> v);
          sizes = sizes_loop variants [];
          sizes_str = (if sizes \<noteq> [] then join (u '','') sizes else []);
          article = article_of variants;
          color = [];
          gender = []
      in [(''URL'', PStr product_url),
          (''ID'', PStr product_id),
          (''Name'', PStr title),
          (''Brand'', PStr brand),
          (''Article'', PStr article),
          (''Gender'', PStr gender),
          (''Image2'', PStr image2),
          (''Ext Images'', PStr ext_images),
          (''Description'', PStr description),
          (''Sizes'', PStr sizes_str),
          (''Color'', PStr color),
          (''Category'', PStr category),
          (''ID2'', PStr id2),
          (''Combine'', PStr [])])"

section \<open>The field extractor\<close>



section \<open>The sink\<close>

text \<open>
  \<open>remove_quotes(value)\<close>. The three calls of \<open>replace\<close> are, in the source, for the
  ASCII double quote, the ASCII apostrophe and the ASCII double quote again.
\<close>

definition remove_quotes :: "pyval \<Rightarrow> pyval" where
  "remove_quotes v =
     (case v of
        PNone \<Rightarrow> PStr []
      | PStr s \<Rightarrow> PStr (str_replace [34] [] (str_replace [39] [] (str_replace [34] [] s))))"

text \<open>\<open>clean_product_data(product_data)\<close>\<close>

definition clean_product_data :: "pdict option \<Rightarrow> pdict option" where
  "clean_product_data product_data =
     (case product_data of
        None \<Rightarrow> None
      | Some d \<Rightarrow> if d = [] then Some d else Some (map (\<lambda>(key, v). (key, remove_quotes v)) d))"

text \<open>
  A file holds text: the model keeps, for each path, the text that the codec the program
  opens the file with decodes (\<open>utf-8-sig\<close> for the output file, so the byte-order mark
  is not part of it).
\<close>

type_synonym fs = "string \<Rightarrow> ustring option"

text \<open>
  Reading a file opened with the default \<open>newline=None\<close> translates the line ends
  \<open>\r\n\<close> and \<open>\r\<close> to \<open>\n\<close>.
\<close>

fun universal_newlines :: "ustring \<Rightarrow> ustring" where
  "universal_newlines [] = []"
| "universal_newlines [c] = [if c = 13 then 10 else c]"
| "universal_newlines (c # d # cs) =
     (if c = 13 then
        (if d = 10 then 10 # universal_newlines cs else 10 # universal_newlines (d # cs))
      else c # universal_newlines (d # cs))"

text \<open>\<open>f.readlines()\<close> on translated text: each line keeps its \<open>\n\<close>.\<close>

fun readlines :: "ustring \<Rightarrow> ustring list" where
  "readlines [] = []"
| "readlines (c # cs) =
     (if c = 10 then [c] # readlines cs
      else (case readlines cs of [] \<Rightarrow> [[c]] | l # ls \<Rightarrow> (c # l) # ls))"

text \<open>
  \<open>clean_csv_file(output_file)\<close> of \<open>parser.py\<close>. The file is written back with
  \<open>newline=''\<close>, that is, as the lines are.
\<close>

definition clean_csv_file :: "string \<Rightarrow> fs \<Rightarrow> fs" where
  "clean_csv_file output_file fs =
     (case fs output_file of
        None \<Rightarrow> fs
      | Some content \<Rightarrow>
          (let lines = readlines (universal_newlines content);
               cleaned_lines =
                 map (\<lambda>line. str_replace [34] [] (str_replace [39] [] (str_replace [34] [] line)))
                   lines
           in fs(output_file \<mapsto> concat cleaned_lines)))"


definition fieldnames :: "string list" where
  "fieldnames = [''URL'', ''ID'', ''Name'', ''Brand'', ''Article'', ''Gender'',
     ''Image2'', ''Ext Images'', ''Description'', ''Sizes'', ''Color'',
     ''Category'', ''ID2'', ''Combine'']"

text \<open>
  The \<open>csv\<close> writer with \<open>delimiter=';'\<close>, \<open>quoting=csv.QUOTE_NONE\<close> and
  \<open>escapechar='\\'\<close>: a field is never quoted; the delimiter, the escape character, the
  quote character and the characters of the line terminator are each preceded by the
  escape character. \<open>None\<close> is written as the empty field, and a row ends with \<open>\r\n\<close>.
\<close>

definition csv_field :: "pyval \<Rightarrow> ustring" where
  "csv_field v =
     (case v of
        PNone \<Rightarrow> []
      | PStr s \<Rightarrow>
          concat (map (\<lambda>c. if c = 59 \<or> c = 92 \<or> c = 34 \<or> c = 13 \<or> c = 10 then [92, c] else [c]) s))"

definition csv_writerow :: "pyval list \<Rightarrow> ustring" where
  "csv_writerow row = join [59] (map csv_field row) @ [13, 10]"

datatype error = ValueError

text \<open>
  \<open>DictWriter.writerow(rowdict)\<close>: a key that is not a field name raises \<open>ValueError\<close>,
  a missing field is written as the empty string.
\<close>

definition DictWriter_writerow :: "pdict \<Rightarrow> error + ustring" where
  "DictWriter_writerow rowdict =
     (if \<exists>key \<in> set (map fst rowdict). key \<notin> set fieldnames then Inl ValueError
      else Inr (csv_writerow
             (map (\<lambda>key. case map_of rowdict key of None \<Rightarrow> PStr [] | Some v \<Rightarrow> v) fieldnames)))"

text \<open>\<open>DictWriter.writeheader()\<close>\<close>

definition writeheader :: ustring where
  "writeheader = csv_writerow (map (\<lambda>key. PStr (u key)) fieldnames)"

text \<open>A dict or \<open>None\<close> as a condition: \<open>None\<close> and the empty dict are false.\<close>

fun truthy_dict :: "pdict option \<Rightarrow> bool" where
  "truthy_dict None = False"
| "truthy_dict (Some d) = (d \<noteq> [])"

text \<open>
  Lines 393 to 397 of \<open>save_to_csv\<close>: the loop over the records, \<open>csvfile\<close> being the
  text of the open file so far.
\<close>

fun write_rows :: "pdict option list \<Rightarrow> ustring \<Rightarrow> error + ustring" where
  "write_rows [] csvfile = Inr csvfile"
| "write_rows (product_data # rest) csvfile =
     (if truthy_dict product_data then
        (case clean_product_data product_data of
           Some cleaned_data \<Rightarrow>
             (case DictWriter_writerow cleaned_data of
                Inl e \<Rightarrow> Inl e
              | Inr line \<Rightarrow> write_rows rest (csvfile @ line))
         | None \<Rightarrow> write_rows rest csvfile)
      else write_rows rest csvfile)"

text \<open>
  \<open>save_to_csv(product_data_list, output_file, append)\<close>. An exception of the writer
  leaves the function; the state of the file at that moment is not kept.
\<close>

definition save_to_csv :: "pdict option list \<Rightarrow> string \<Rightarrow> bool \<Rightarrow> fs \<Rightarrow> error + fs" where
  "save_to_csv product_data_list output_file append' fs =
     (if product_data_list = [] then Inr fs
      else
        (let file_exists = (fs output_file \<noteq> None \<and> append');
             csvfile =
               (if append' \<and> file_exists
                then (case fs output_file of Some content \<Rightarrow> content | None \<Rightarrow> [])
                else []);
             csvfile = (if \<not> (append' \<and> file_exists) then csvfile @ writeheader else csvfile)
         in case write_rows product_data_list csvfile of
              Inl e \<Rightarrow> Inl e
            | Inr csvfile \<Rightarrow> Inr (clean_csv_file output_file (fs(output_file \<mapsto> csvfile)))))"

section \<open>The batch run\<close>







section \<open>Reference definitions from the specification\<close>

text \<open>
  The rewriting of an image URL as the specification words it: a \<open>//host/path\<close> form
  gets \<open>https:\<close> in front, a \<open>/path\<close> form gets the site origin in front, any other
  string passes through unchanged.
\<close>

definition normalized_url_spec :: "ustring \<Rightarrow> ustring" where
  "normalized_url_spec s =
     (if take 2 s = u ''//'' then u ''https:'' @ s
      else if take 1 s = u ''/'' then u ''https://www.papadontpreach.com'' @ s
      else s)"

text \<open>
  A list with its duplicates removed, each element staying at its first occurrence.
\<close>

fun dedup_spec :: "'a list \<Rightarrow> 'a list" where
  "dedup_spec [] = []"
| "dedup_spec (x # xs) = x # dedup_spec (filter (\<lambda>y. y \<noteq> x) xs)"

text \<open>The first non-empty string of a list of candidates, the empty string if none is.\<close>

fun first_nonempty_spec :: "ustring list \<Rightarrow> ustring" where
  "first_nonempty_spec [] = []"
| "first_nonempty_spec (x # xs) = (if x \<noteq> [] then x else first_nonempty_spec xs)"

section \<open>Notions used in the statements\<close>

text \<open>
  What \<open>clean_csv_file\<close> writes back for a file that holds \<open>content\<close>: the text with its
  line ends translated, without the ASCII double quotes and apostrophes.
\<close>

definition clean_text :: "ustring \<Rightarrow> ustring" where
  "clean_text content = filter (\<lambda>c. c \<noteq> 34 \<and> c \<noteq> 39) (universal_newlines content)"

text \<open>The text that the loop of \<open>save_to_csv\<close> writes for one record.\<close>

definition row_text :: "pdict \<Rightarrow> ustring" where
  "row_text r =
     csv_writerow
       (map (\<lambda>key. case map_of (map (\<lambda>(k, v). (k, remove_quotes v)) r) key of
                     None \<Rightarrow> PStr [] | Some v \<Rightarrow> v)
          fieldnames)"

text \<open>The header and the row of a record as they stand in the file after the cleaning pass.\<close>

definition file_header :: ustring where
  "file_header = clean_text writeheader"

definition file_row :: "pdict \<Rightarrow> ustring" where
  "file_row r = clean_text (row_text r)"

text \<open>The entries of a list that \<open>save_to_csv\<close> writes: those that are a non-empty dict.\<close>

fun written :: "pdict option list \<Rightarrow> pdict list" where
  "written [] = []"
| "written (None # ps) = written ps"
| "written (Some r # ps) = (if r = [] then written ps else r # written ps)"

text \<open>A record of the output schema: a non-empty dict whose keys are column names.\<close>

definition valid_record :: "pdict \<Rightarrow> bool" where
  "valid_record r = (r \<noteq> [] \<and> set (map fst r) \<subseteq> set fieldnames)"




section \<open>Inputs of the worked examples\<close>

definition empty_soup :: soup where
  "empty_soup = \<lparr>find_link_canonical = None, find_meta_description = None,
     find_meta_og_description = None\<rparr>"

text \<open>
  Libraries that find no tag, parse no JSON and know the ASCII digits only.
\<close>

definition plain_env :: env where
  "plain_env = \<lparr>BeautifulSoup = (\<lambda>page. empty_soup), json_loads = (\<lambda>s. None),
     html_text = (\<lambda>v. None), unicode_Nd = (\<lambda>c. 48 \<le> c \<and> c \<le> 57)\<rparr>"

text \<open>The three variants of the example of the specification, and two with an empty label.\<close>

definition example_variants :: "sdict list" where
  "example_variants =
     [[(''public_title'', u ''S''), (''sku'', u ''111'')],
      [(''public_title'', u ''M''), (''sku'', u ''111'')],
      [(''public_title'', u ''S''), (''sku'', u ''222'')]]"

definition unlabelled_variants :: "sdict list" where
  "unlabelled_variants =
     [[(''public_title'', []), (''sku'', u ''1'')],
      [(''public_title'', u ''S''), (''sku'', u ''1'')]]"


definition plain_page :: ustring where
  "plain_page = u ''<html><body>Not found</body></html>''"

text \<open>
  A page with a SwymProductInfo blob, a meta description and an Open Graph description,
  with libraries that read them.
\<close>

definition swym_page :: ustring where
  \<open>swym_page = u ''window.SwymProductInfo.product = {"description":"<p>Hi</p>"};''\<close>

definition swym_soup :: soup where
  "swym_soup = \<lparr>find_link_canonical = None,
     find_meta_description = Some [(''name'', u ''description''), (''content'', u ''meta text'')],
     find_meta_og_description =
       Some [(''property'', u ''og:description''), (''content'', u ''og text'')]\<rparr>"

definition swym_env :: env where
  \<open>swym_env = \<lparr>BeautifulSoup = (\<lambda>page. swym_soup),
     json_loads = (\<lambda>s. if s = u ''{"description":"<p>Hi</p>"}''
        then Some (JObj [(u ''description'', JStr (u ''<p>Hi</p>''))]) else None),
     html_text = (\<lambda>v. if v = JStr (u ''<p>Hi</p>'') then Some (u ''Hi'') else None),
     unicode_Nd = (\<lambda>c. 48 \<le> c \<and> c \<le> 57)\<rparr>\<close>

text \<open>
  The record of a product whose title holds an apostrophe, an ASCII double quote and the
  right double quotation mark U+201D (code point 8221).
\<close>

definition quoted_record :: pdict where
  "quoted_record =
     process_kiwi_data plain_env (u ''id'')
       (empty_kiwi\<lparr>kd_title := Some (u ''Papa'' @ [39] @ u ''s '' @ [34] @ u ''Gown'' @ [8221])\<rparr>)
       [] empty_soup (Some (u ''http://x''))"

definition no_files :: fs where
  "no_files = (\<lambda>path. None)"



section \<open>Facts about the string operations\<close>

lemma u_simps: "u [] = []" "u (c # cs) = of_char c # u cs"
  by (simp_all add: u_def)

lemma length_u: "length (u s) = length s"
  by (simp add: u_def)

lemma str_replace_delete: "str_replace [c] [] s = filter (\<lambda>x. x \<noteq> c) s"
  by (induction s) (simp_all add: startswith_def)

section \<open>The record builder: columns\<close>

lemma process_kiwi_data_keys:
  "map fst (process_kiwi_data env id2 kd html soup url) = fieldnames"
  by (simp add: process_kiwi_data_def fieldnames_def Let_def)

lemma process_kiwi_data_Image2:
  "map_of (process_kiwi_data env id2 kd html soup url) ''Image2''
     = Some (PStr (image2_of (case kd_images kd of None \<Rightarrow> [] | Some v \<Rightarrow> v)))"
  by (simp add: process_kiwi_data_def Let_def)

lemma process_kiwi_data_Ext_Images:
  "map_of (process_kiwi_data env id2 kd html soup url) ''Ext Images''
     = Some (PStr (ext_images_of (case kd_images kd of None \<Rightarrow> [] | Some v \<Rightarrow> v)))"
  by (simp add: process_kiwi_data_def Let_def)

lemma startswith_slashes:
  "startswith s (u ''//'') = (take 2 s = u ''//'')"
  "startswith s (u ''/'') = (take 1 s = u ''/'')"
  by (simp_all add: startswith_def length_u numeral_2_eq_2)

lemma image2_of_spec: "image2_of (a # rest) = normalized_url_spec a"
  by (simp add: image2_of_def normalized_url_spec_def startswith_slashes site_origin_def)

lemma ext_images_of_two: "ext_images_of [a, b] = normalized_url_spec b"
  by (simp add: ext_images_of_def normalized_url_spec_def startswith_slashes
      site_origin_def Let_def)

lemma ext_images_of_three:
  "ext_images_of (a # b # c # rest) = normalized_url_spec b @ u '','' @ normalized_url_spec c"
  by (simp add: ext_images_of_def normalized_url_spec_def startswith_slashes
      site_origin_def Let_def)

lemma ext_images_of_short: "ext_images_of [] = []" "ext_images_of [a] = []"
  by (simp_all add: ext_images_of_def)

text \<open>
  C1. Every record built by \<open>process_kiwi_data\<close> has exactly the 14 keys URL, ID, Name,
  Brand, Article, Gender, Image2, Ext Images, Description, Sizes, Color, Category, ID2,
  Combine, each once, whatever the field mapping and the page are; a field that the
  mapping lacks leaves its column in place with the empty string as value.
\<close>

theorem record_has_all_14_keys:
  "map fst (process_kiwi_data env id2 kd html soup url)
     = [''URL'', ''ID'', ''Name'', ''Brand'', ''Article'', ''Gender'', ''Image2'',
        ''Ext Images'', ''Description'', ''Sizes'', ''Color'', ''Category'', ''ID2'',
        ''Combine'']
   \<and> distinct (map fst (process_kiwi_data env id2 kd html soup url))
   \<and> (\<forall>key \<in> set (map fst (process_kiwi_data env id2 kd html soup url)).
         \<exists>s. map_of (process_kiwi_data env id2 kd html soup url) key = Some (PStr s))
   \<and> (kd_product kd = None \<longrightarrow>
         map_of (process_kiwi_data env id2 kd html soup url) ''ID'' = Some (PStr []))
   \<and> (kd_title kd = None \<longrightarrow>
         map_of (process_kiwi_data env id2 kd html soup url) ''Name'' = Some (PStr []))
   \<and> (kd_vendor kd = None \<longrightarrow>
         map_of (process_kiwi_data env id2 kd html soup url) ''Brand'' = Some (PStr []))
   \<and> (kd_type kd = None \<longrightarrow>
         map_of (process_kiwi_data env id2 kd html soup url) ''Category'' = Some (PStr []))
   \<and> (kd_images kd = None \<longrightarrow>
         map_of (process_kiwi_data env id2 kd html soup url) ''Image2'' = Some (PStr [])
         \<and> map_of (process_kiwi_data env id2 kd html soup url) ''Ext Images'' = Some (PStr []))
   \<and> (kd_variants kd = None \<longrightarrow>
         map_of (process_kiwi_data env id2 kd html soup url) ''Article'' = Some (PStr [])
         \<and> map_of (process_kiwi_data env id2 kd html soup url) ''Sizes'' = Some (PStr []))"
  by (simp add: process_kiwi_data_def Let_def image2_of_def ext_images_of_def article_of_def)

theorem record_has_all_14_keys_witness:
  "map fst (process_kiwi_data plain_env (u ''id'') empty_kiwi [] empty_soup None)
     = [''URL'', ''ID'', ''Name'', ''Brand'', ''Article'', ''Gender'', ''Image2'',
        ''Ext Images'', ''Description'', ''Sizes'', ''Color'', ''Category'', ''ID2'',
        ''Combine'']
   \<and> map_of (process_kiwi_data plain_env (u ''id'') empty_kiwi [] empty_soup None) ''Name''
       = Some (PStr [])
   \<and> map_of (process_kiwi_data plain_env (u ''id'') empty_kiwi [] empty_soup None) ''Sizes''
       = Some (PStr [])
   \<and> map_of (process_kiwi_data plain_env (u ''id'') empty_kiwi [] empty_soup None) ''Image2''
       = Some (PStr [])"
  using record_has_all_14_keys [of plain_env "u ''id''" empty_kiwi "[]" empty_soup None]
  by (simp add: empty_kiwi_def)

text \<open>
  C2. The record builder consumes the first three entries of the image list only: with
  one image, Image2 is that image and Ext Images is empty; with two, Ext Images is the
  second; with three or more, Ext Images is the second and the third joined by a comma,
  and the entries past the third change nothing in the record. Each entry is taken after
  its rewriting to an absolute URL.
\<close>

theorem images_first_three_consumed:
  "map_of (process_kiwi_data env id2 (kd\<lparr>kd_images := Some [a]\<rparr>) html soup url) ''Image2''
     = Some (PStr (normalized_url_spec a))
   \<and> map_of (process_kiwi_data env id2 (kd\<lparr>kd_images := Some [a]\<rparr>) html soup url) ''Ext Images''
     = Some (PStr [])
   \<and> map_of (process_kiwi_data env id2 (kd\<lparr>kd_images := Some [a, b]\<rparr>) html soup url) ''Image2''
     = Some (PStr (normalized_url_spec a))
   \<and> map_of (process_kiwi_data env id2 (kd\<lparr>kd_images := Some [a, b]\<rparr>) html soup url) ''Ext Images''
     = Some (PStr (normalized_url_spec b))
   \<and> map_of (process_kiwi_data env id2 (kd\<lparr>kd_images := Some (a # b # c # rest)\<rparr>) html soup url)
       ''Image2''
     = Some (PStr (normalized_url_spec a))
   \<and> map_of (process_kiwi_data env id2 (kd\<lparr>kd_images := Some (a # b # c # rest)\<rparr>) html soup url)
       ''Ext Images''
     = Some (PStr (normalized_url_spec b @ u '','' @ normalized_url_spec c))
   \<and> process_kiwi_data env id2 (kd\<lparr>kd_images := Some (a # b # c # rest)\<rparr>) html soup url
     = process_kiwi_data env id2 (kd\<lparr>kd_images := Some [a, b, c]\<rparr>) html soup url"
proof -
  have same: "process_kiwi_data env id2 (kd\<lparr>kd_images := Some (a # b # c # rest)\<rparr>) html soup url
     = process_kiwi_data env id2 (kd\<lparr>kd_images := Some [a, b, c]\<rparr>) html soup url"
    by (simp add: process_kiwi_data_def Let_def image2_of_spec ext_images_of_three)
  show ?thesis
    by (simp add: same process_kiwi_data_Image2 process_kiwi_data_Ext_Images image2_of_spec
        ext_images_of_two ext_images_of_three ext_images_of_short)
qed

text \<open>
  C3. Each consumed image entry is rewritten so: a string starting with \<open>//\<close> gets
  \<open>https:\<close> in front, a string starting with one \<open>/\<close> gets
  \<open>https://www.papadontpreach.com\<close> in front, any other string is unchanged. This holds
  for the entry that becomes Image2 and for the two that become Ext Images.
\<close>

theorem image_url_normalization:
  "(startswith s (u ''//'') \<longrightarrow>
      image2_of (s # rest) = u ''https:'' @ s
      \<and> ext_images_of [a, s] = u ''https:'' @ s
      \<and> ext_images_of (a # s # s # rest) = (u ''https:'' @ s) @ u '','' @ (u ''https:'' @ s))
   \<and> (\<not> startswith s (u ''//'') \<and> startswith s (u ''/'') \<longrightarrow>
      image2_of (s # rest) = u ''https://www.papadontpreach.com'' @ s
      \<and> ext_images_of [a, s] = u ''https://www.papadontpreach.com'' @ s
      \<and> ext_images_of (a # s # s # rest)
          = (u ''https://www.papadontpreach.com'' @ s) @ u '',''
            @ (u ''https://www.papadontpreach.com'' @ s))
   \<and> (\<not> startswith s (u ''//'') \<and> \<not> startswith s (u ''/'') \<longrightarrow>
      image2_of (s # rest) = s
      \<and> ext_images_of [a, s] = s
      \<and> ext_images_of (a # s # s # rest) = s @ u '','' @ s)
   \<and> map_of (process_kiwi_data env id2 (kd\<lparr>kd_images := Some (s # rest)\<rparr>) html soup url) ''Image2''
       = Some (PStr (image2_of (s # rest)))
   \<and> map_of (process_kiwi_data env id2 (kd\<lparr>kd_images := Some (a # rest)\<rparr>) html soup url)
       ''Ext Images''
       = Some (PStr (ext_images_of (a # rest)))"
  by (simp add: process_kiwi_data_Image2 process_kiwi_data_Ext_Images image2_of_def
      ext_images_of_def Let_def site_origin_def)

theorem image_url_normalization_witness:
  "image2_of [u ''//cdn.x/y.jpg''] = u ''https://cdn.x/y.jpg''
   \<and> image2_of [u ''/p/y.jpg''] = u ''https://www.papadontpreach.com/p/y.jpg''
   \<and> image2_of [u ''https://cdn.x/y.jpg''] = u ''https://cdn.x/y.jpg''
   \<and> ext_images_of [u ''a'', u ''//cdn.x/y.jpg''] = u ''https://cdn.x/y.jpg''
   \<and> ext_images_of [u ''a'', u ''/p/y.jpg''] = u ''https://www.papadontpreach.com/p/y.jpg''
   \<and> ext_images_of [u ''a'', u ''https://cdn.x/y.jpg''] = u ''https://cdn.x/y.jpg''"
  using image_url_normalization [of "u ''//cdn.x/y.jpg''" "[]" "u ''a''"]
    image_url_normalization [of "u ''/p/y.jpg''" "[]" "u ''a''"]
    image_url_normalization [of "u ''https://cdn.x/y.jpg''" "[]" "u ''a''"]
  by (simp add: startswith_def u_def)

section \<open>The record builder: sizes and article\<close>

lemma join_Nil: "join sep [] = []"
  by simp

lemma sizes_loop_spec:
  "sizes_loop vs acc
     = acc @ dedup_spec (filter (\<lambda>l. l \<noteq> [] \<and> l \<notin> set acc)
                 (map (\<lambda>v. sget v ''public_title'') vs))"
proof (induction vs arbitrary: acc)
  case Nil
  show ?case by simp
next
  case (Cons v vs)
  have conj: "\<And>a. (\<lambda>l. l \<noteq> [] \<and> l \<noteq> a \<and> l \<notin> set acc) = (\<lambda>x. x \<noteq> [] \<and> x \<notin> set acc \<and> x \<noteq> a)"
    by auto
  show ?case
    by (simp add: Let_def Cons.IH conj)
qed

lemma process_kiwi_data_Sizes:
  "map_of (process_kiwi_data env id2 kd html soup url) ''Sizes''
     = Some (PStr (join (u '','')
         (sizes_loop (case kd_variants kd of None \<Rightarrow> [] | Some v \<Rightarrow> v) [])))"
  by (simp add: process_kiwi_data_def Let_def)

lemma process_kiwi_data_Article:
  "map_of (process_kiwi_data env id2 kd html soup url) ''Article''
     = Some (PStr (article_of (case kd_variants kd of None \<Rightarrow> [] | Some v \<Rightarrow> v)))"
  by (simp add: process_kiwi_data_def Let_def)

text \<open>
  C4, as stated, fails: a variant whose label is empty is left out of Sizes, so the two
  variants with the labels \<open>''\<close> and \<open>S\<close> give \<open>S\<close>, not the join \<open>,S\<close> of the labels
  without duplicates.
\<close>

theorem sizes_skip_empty_labels_counterexample:
  "map_of (process_kiwi_data plain_env (u ''id'')
       (empty_kiwi\<lparr>kd_variants := Some unlabelled_variants\<rparr>) [] empty_soup None) ''Sizes''
     = Some (PStr (u ''S''))
   \<and> join (u '','') (dedup_spec (map (\<lambda>v. sget v ''public_title'') unlabelled_variants))
     = u '',S''"
  by (simp add: process_kiwi_data_Sizes unlabelled_variants_def sget_def u_def)

text \<open>
  C4, amended. For every variants list, Article is the sku of the first variant and Sizes
  is the comma-join of the non-empty variant labels with duplicates removed, each label
  staying at its first occurrence; with an empty list both columns are empty. Where no
  label is empty, Sizes is the join of all the labels without duplicates, as the claim has
  it.
\<close>

theorem sizes_and_article:
  "map_of (process_kiwi_data env id2 (kd\<lparr>kd_variants := Some (v # vs)\<rparr>) html soup url) ''Article''
     = Some (PStr (sget v ''sku''))
   \<and> map_of (process_kiwi_data env id2 (kd\<lparr>kd_variants := Some vs\<rparr>) html soup url) ''Sizes''
     = Some (PStr (join (u '','')
         (dedup_spec (filter (\<lambda>l. l \<noteq> []) (map (\<lambda>v. sget v ''public_title'') vs)))))
   \<and> ((\<forall>v \<in> set vs. sget v ''public_title'' \<noteq> []) \<longrightarrow>
        map_of (process_kiwi_data env id2 (kd\<lparr>kd_variants := Some vs\<rparr>) html soup url) ''Sizes''
          = Some (PStr (join (u '','') (dedup_spec (map (\<lambda>v. sget v ''public_title'') vs)))))
   \<and> map_of (process_kiwi_data env id2 (kd\<lparr>kd_variants := Some []\<rparr>) html soup url) ''Article''
     = Some (PStr [])
   \<and> map_of (process_kiwi_data env id2 (kd\<lparr>kd_variants := Some []\<rparr>) html soup url) ''Sizes''
     = Some (PStr [])"
proof -
  have all: "(\<forall>v \<in> set vs. sget v ''public_title'' \<noteq> []) \<Longrightarrow>
      filter (\<lambda>l. l \<noteq> []) (map (\<lambda>v. sget v ''public_title'') vs)
        = map (\<lambda>v. sget v ''public_title'') vs"
    by (induction vs) simp_all
  show ?thesis
    using all
    by (auto simp add: process_kiwi_data_Sizes process_kiwi_data_Article sizes_loop_spec
        article_of_def)
qed

theorem sizes_and_article_witness:
  "map_of (process_kiwi_data plain_env (u ''id'')
       (empty_kiwi\<lparr>kd_variants := Some example_variants\<rparr>) [] empty_soup None) ''Article''
     = Some (PStr (u ''111''))
   \<and> map_of (process_kiwi_data plain_env (u ''id'')
       (empty_kiwi\<lparr>kd_variants := Some example_variants\<rparr>) [] empty_soup None) ''Sizes''
     = Some (PStr (u ''S,M''))"
  using sizes_and_article [where env = plain_env and ?id2.0 = "u ''id''" and kd = empty_kiwi
      and v = "hd example_variants" and vs = "tl example_variants" and html = "[]"
      and soup = empty_soup and url = None]
    sizes_and_article [where env = plain_env and ?id2.0 = "u ''id''" and kd = empty_kiwi
      and v = "hd example_variants" and vs = "example_variants" and html = "[]"
      and soup = empty_soup and url = None]
  by (simp add: example_variants_def sget_def u_def)

section \<open>The gate of the extractor\<close>





section \<open>The record builder: description\<close>

lemma process_kiwi_data_Description:
  "map_of (process_kiwi_data env id2 kd html soup url) ''Description''
     = Some (PStr (description_of env html soup))"
  by (simp add: process_kiwi_data_def Let_def)

lemma description_of_spec:
  "description_of env html soup
     = first_nonempty_spec
         [swym_description env html,
          (case find_meta_description soup of None \<Rightarrow> [] | Some tag \<Rightarrow> sget tag ''content''),
          (case find_meta_og_description soup of None \<Rightarrow> [] | Some tag \<Rightarrow> sget tag ''content'')]"
  by (simp add: description_of_def Let_def split: option.splits)

text \<open>
  C9. The Description of the record is the first non-empty of, in this order, the
  description of the SwymProductInfo blob as text, the content of the meta description
  tag and the content of the Open Graph description tag, and the empty string when all
  three are empty or absent. The first candidate is the text that the HTML parser gives
  for the \<open>description\<close> field of the parsed blob; it is empty when the page has no blob.
\<close>

theorem description_fallback_order:
  "map_of (process_kiwi_data env id2 kd html soup url) ''Description''
     = Some (PStr (first_nonempty_spec
         [swym_description env html,
          (case find_meta_description soup of None \<Rightarrow> [] | Some tag \<Rightarrow> sget tag ''content''),
          (case find_meta_og_description soup of None \<Rightarrow> [] | Some tag \<Rightarrow> sget tag ''content'')]))
   \<and> (re_search swym_re html = Some m
        \<and> json_loads env (str_replace [92, 47] [47] (group1 (fst m))) = Some (JObj blob)
        \<and> map_of blob (u ''description'') = Some (JStr d) \<and> d \<noteq> []
        \<and> html_text env (JStr d) = Some t
      \<longrightarrow> swym_description env html = t)
   \<and> (re_search swym_re html = None \<longrightarrow> swym_description env html = [])"
  by (simp add: process_kiwi_data_Description description_of_spec swym_description_def Let_def)

theorem description_fallback_order_witness:
  "map_of (process_kiwi_data swym_env (u ''id'') empty_kiwi swym_page swym_soup None) ''Description''
     = Some (PStr (u ''Hi''))
   \<and> map_of (process_kiwi_data plain_env (u ''id'') empty_kiwi swym_page swym_soup None)
       ''Description''
     = Some (PStr (u ''meta text''))
   \<and> map_of (process_kiwi_data plain_env (u ''id'') empty_kiwi swym_page
       (swym_soup\<lparr>find_meta_description := None\<rparr>) None) ''Description''
     = Some (PStr (u ''og text''))
   \<and> map_of (process_kiwi_data plain_env (u ''id'') empty_kiwi plain_page empty_soup None)
       ''Description''
     = Some (PStr [])"
proof -
  have blob: "re_search swym_re swym_page
      = Some ([[123, 34, 100, 101, 115, 99, 114, 105, 112, 116, 105, 111, 110, 34, 58, 34, 60, 112,
          62, 72, 105, 60, 47, 112, 62, 34, 125]], [])"
    by code_simp
  have no_blob: "re_search swym_re plain_page = None"
    by code_simp
  have swym: "swym_description swym_env swym_page = u ''Hi''"
    using description_fallback_order [where env = swym_env and html = swym_page
        and m = "the (re_search swym_re swym_page)"
        and blob = "[(u ''description'', JStr (u ''<p>Hi</p>''))]" and d = "u ''<p>Hi</p>''"
        and t = "u ''Hi''"]
    by (simp add: blob swym_env_def u_def startswith_def)
  have plain: "swym_description plain_env swym_page = []"
    by (simp add: swym_description_def blob plain_env_def)
  have none: "swym_description plain_env plain_page = []"
    using description_fallback_order [where env = plain_env and html = plain_page] no_blob
    by simp
  show ?thesis
    using description_fallback_order [where env = swym_env and ?id2.0 = "u ''id''"
        and kd = empty_kiwi and html = swym_page and soup = swym_soup and url = None]
      description_fallback_order [where env = plain_env and ?id2.0 = "u ''id''"
        and kd = empty_kiwi and html = swym_page and soup = swym_soup and url = None]
      description_fallback_order [where env = plain_env and ?id2.0 = "u ''id''"
        and kd = empty_kiwi and html = swym_page
        and soup = "swym_soup\<lparr>find_meta_description := None\<rparr>" and url = None]
      description_fallback_order [where env = plain_env and ?id2.0 = "u ''id''"
        and kd = empty_kiwi and html = plain_page and soup = empty_soup and url = None]
    by (simp add: swym plain none swym_soup_def empty_soup_def sget_def u_def)
qed

section \<open>The sink: what is written\<close>

lemma delete_quotes_filter:
  "str_replace [34] [] (str_replace [39] [] (str_replace [34] [] s))
     = filter (\<lambda>c. c \<noteq> 34 \<and> c \<noteq> 39) s"
  by (simp add: str_replace_delete conj_commute)

lemma concat_readlines: "concat (readlines s) = s"
  by (induction s) (auto split: list.splits)

lemma concat_map_filter_readlines: "concat (map (filter P) (readlines s)) = filter P s"
proof -
  have "concat (map (filter P) (readlines s)) = filter P (concat (readlines s))"
    by (simp add: filter_concat)
  then show ?thesis by (simp add: concat_readlines)
qed

lemma clean_csv_file_text:
  "clean_csv_file f fs = (case fs f of None \<Rightarrow> fs | Some content \<Rightarrow> fs(f \<mapsto> clean_text content))"
  by (simp add: clean_csv_file_def Let_def delete_quotes_filter concat_map_filter_readlines
      clean_text_def split: option.splits)



lemma universal_newlines_append:
  "a = [] \<or> last a \<noteq> 13 \<Longrightarrow> universal_newlines (a @ b) = universal_newlines a @ universal_newlines b"
proof (induction a rule: universal_newlines.induct)
  case 1
  then show ?case by simp
next
  case (2 c)
  then show ?case by (cases b) simp_all
next
  case (3 c d cs)
  then show ?case by (simp split: if_splits)
qed


lemma clean_text_append:
  "a = [] \<or> last a \<noteq> 13 \<Longrightarrow> clean_text (a @ b) = clean_text a @ clean_text b"
  by (simp add: clean_text_def universal_newlines_append)




lemma last_csv_writerow: "csv_writerow row \<noteq> [] \<and> last (csv_writerow row) = 10"
  by (simp add: csv_writerow_def)

lemma DictWriter_writerow_valid:
  "set (map fst r) \<subseteq> set fieldnames \<Longrightarrow>
   DictWriter_writerow (map (\<lambda>(k, v). (k, remove_quotes v)) r) = Inr (row_text r)"
  by (auto simp add: DictWriter_writerow_def row_text_def)

lemma write_rows_written:
  "\<forall>r \<in> set (written ps). valid_record r \<Longrightarrow>
   write_rows ps csvfile = Inr (csvfile @ concat (map row_text (written ps)))"
proof (induction ps arbitrary: csvfile)
  case Nil
  then show ?case by simp
next
  case (Cons p ps)
  show ?case
  proof (cases p)
    case None
    then show ?thesis using Cons by simp
  next
    case (Some r)
    show ?thesis
    proof (cases "r = []")
      case True
      then show ?thesis using Cons Some by simp
    next
      case False
      then have "set (map fst r) \<subseteq> set fieldnames"
        using Cons.prems Some by (simp add: valid_record_def)
      then show ?thesis
        using Cons Some False
        by (simp add: clean_product_data_def DictWriter_writerow_valid)
    qed
  qed
qed

lemma clean_text_rows: "clean_text (concat (map row_text rs)) = concat (map file_row rs)"
proof (induction rs)
  case Nil
  show ?case by (simp add: clean_text_def)
next
  case (Cons r rs)
  have "clean_text (row_text r @ concat (map row_text rs))
      = clean_text (row_text r) @ clean_text (concat (map row_text rs))"
    by (rule clean_text_append) (simp add: row_text_def last_csv_writerow)
  then show ?case by (simp add: Cons.IH file_row_def)
qed

lemma clean_text_fresh:
  "clean_text (writeheader @ concat (map row_text rs)) = file_header @ concat (map file_row rs)"
proof -
  have "clean_text (writeheader @ concat (map row_text rs))
      = clean_text writeheader @ clean_text (concat (map row_text rs))"
    by (rule clean_text_append) (simp add: writeheader_def last_csv_writerow)
  then show ?thesis by (simp add: clean_text_rows file_header_def)
qed


lemma save_to_csv_fresh:
  assumes "ps \<noteq> []" "\<forall>r \<in> set (written ps). valid_record r" "\<not> app \<or> fs f = None"
  shows "save_to_csv ps f app fs = Inr (fs(f \<mapsto> file_header @ concat (map file_row (written ps))))"
  using assms
  by (auto simp add: save_to_csv_def Let_def write_rows_written clean_csv_file_text clean_text_fresh)



lemma set_join: "set (join sep xs) \<subseteq> set sep \<union> \<Union> (set ` set xs)"
  by (induction sep xs rule: join.induct) auto

lemma set_csv_field: "set (csv_field v) \<subseteq> {92} \<union> (case v of PNone \<Rightarrow> {} | PStr s \<Rightarrow> set s)"
  by (cases v) (auto simp add: csv_field_def)







lemma file_header_value:
  "file_header = u ''URL;ID;Name;Brand;Article;Gender;Image2;Ext Images;Description;Sizes;Color;Category;ID2;Combine'' @ [10]"
  by code_simp




section \<open>The sink: append mode, quotes and the cleaning pass\<close>


lemma process_kiwi_data_valid: "valid_record (process_kiwi_data env id2 kd html soup url)"
proof -
  have "map fst (process_kiwi_data env id2 kd html soup url) = fieldnames"
    by (rule process_kiwi_data_keys)
  moreover have "fieldnames \<noteq> []"
    by (simp add: fieldnames_def)
  ultimately show ?thesis
    unfolding valid_record_def by (metis list.map_disc_iff subset_refl)
qed

lemma quoted_record_row:
  "file_row quoted_record = u ''http://x;;Papas Gown'' @ [8221] @ u '';;;;;;;;;;id;'' @ [10]"
  by code_simp



text \<open>
  C6. The sink is to leave no ASCII double quote, no ASCII apostrophe and no right double
  quotation mark U+201D in the file. For the record of a product titled
  \<open>Papa's "Gown\<close> followed by U+201D, the file has neither of the two ASCII characters,
  but U+201D is still there: the third \<open>replace\<close> of \<open>remove_quotes\<close> and of
  \<open>clean_csv_file\<close> is for the ASCII double quote again.
\<close>

theorem right_double_quote_survives_sink:
  "save_to_csv [Some quoted_record] ''out.csv'' False no_files
     = Inr (no_files(''out.csv'' \<mapsto>
         u ''URL;ID;Name;Brand;Article;Gender;Image2;Ext Images;Description;Sizes;Color;Category;ID2;Combine''
         @ [10] @ u ''http://x;;Papas Gown'' @ [8221] @ u '';;;;;;;;;;id;'' @ [10]))
   \<and> 8221 \<in> set (u ''http://x;;Papas Gown'' @ [8221] @ u '';;;;;;;;;;id;'' @ [10])
   \<and> remove_quotes (PStr [8221]) = PStr [8221]"
proof -
  have "\<forall>r \<in> set (written [Some quoted_record]). valid_record r"
    by (simp add: quoted_record_def process_kiwi_data_valid)
  then have "save_to_csv [Some quoted_record] ''out.csv'' False no_files
      = Inr (no_files(''out.csv'' \<mapsto> file_header @ concat (map file_row (written [Some quoted_record]))))"
    by (intro save_to_csv_fresh) simp_all
  moreover have "written [Some quoted_record] = [quoted_record]"
    using process_kiwi_data_valid [of plain_env] by (simp add: quoted_record_def valid_record_def)
  moreover have "remove_quotes (PStr [8221]) = PStr [8221]"
    by (simp add: remove_quotes_def startswith_def)
  ultimately show ?thesis
    by (simp add: quoted_record_row file_header_value)
qed






lemma save_to_csv_no_ascii_quotes:
  assumes "ps \<noteq> []" and "save_to_csv ps f app fs = Inr fs'"
  shows "\<exists>content. fs' f = Some content \<and> 34 \<notin> set content \<and> 39 \<notin> set content"
proof -
  obtain csvfile where "fs' = clean_csv_file f (fs(f \<mapsto> csvfile))"
    using assms by (auto simp add: save_to_csv_def Let_def split: sum.splits)
  then have "fs' f = Some (clean_text csvfile)"
    by (simp add: clean_csv_file_text)
  then show ?thesis
    by (simp add: clean_text_def)
qed

section \<open>The batch run: failures and order\<close>








lemma written_append: "written (ps @ qs) = written ps @ written qs"
  by (induction ps rule: written.induct) simp_all










end
